theory Spec2Isabelle
  imports Complex_Main
begin

section \<open>Vector tile layer: data model\<close>

text \<open>
  A shallow embedding of \<^verbatim>\<open>src/core/vectortile/qgsvectortilelayer.cpp\<close>.
  The layer object is a record of the member variables the file reads and writes; every
  member function takes the layer and returns the updated layer next to its C++ result.
  Classes that the file only calls (the data source URI, the MBTiles reader, the blocking
  network request, the JSON parser, the URL class, the tile loader, the path resolver)
  are collaborators: their operations are fields of a record of functions that the
  member functions receive as an argument.
\<close>

type_synonym byteArray = string

record rectangle =
  xMinimum :: real
  yMinimum :: real
  xMaximum :: real
  yMaximum :: real

text \<open>\<^verbatim>\<open>QVariant\<close>, as far as a parsed JSON document fills it. A JSON number is
  kept as the integer that \<^verbatim>\<open>toInt\<close> makes of it.\<close>

datatype variant =
    VInvalid
  | VNull
  | VBool bool
  | VNum int
  | VString string
  | VList "variant list"
  | VMap "(string \<times> variant) list"

text \<open>\<^verbatim>\<open>QJsonDocument\<close>: a non-null document is an object or an array.\<close>

datatype jsonDocument =
    DocObject "(string \<times> variant) list"
  | DocArray "variant list"

text \<open>The result of \<^verbatim>\<open>QgsBlockingNetworkRequest::get\<close>; the reply content comes with
  \<^verbatim>\<open>NoError\<close>.\<close>

datatype networkResult =
    NoError byteArray
  | NetworkError
  | TimeoutError
  | ServerExceptionError

text \<open>An opened \<^verbatim>\<open>QgsMbTiles\<close> reader: \<^verbatim>\<open>metadataValue\<close> is the empty string for a
  missing key.\<close>

record mbTiles =
  metadataValue :: "string \<Rightarrow> string"
  mbExtent :: rectangle

record tileXYZ =
  column :: int
  row :: int
  zoomLevel :: int

datatype tileMatrix = FromWebMercator int

record tileRange =
  startColumn :: int
  endColumn :: int
  startRow :: int
  endRow :: int

record rawData =
  tileId :: tileXYZ
  tileData :: byteArray

text \<open>The renderer and labeling class hierarchies: the file creates the basic kind of
  each; what a renderer or a labeling holds (its styles) is opaque here.\<close>

datatype 's renderer = BasicRenderer 's

datatype 'b labeling = BasicLabeling 'b

datatype styleCategory = Symbology | Labeling | OtherCategory

text \<open>A DOM element; a \<^verbatim>\<open>QDomNode\<close> or \<^verbatim>\<open>QDomElement\<close> that is null is \<open>None\<close>.\<close>

datatype domElement =
  Element (tagName: string) (attributes: "(string \<times> string) list") (childElements: "domElement list")

record ('s, 'b) layer =
  mDataSource :: string
  mSourceType :: string
  mSourcePath :: string
  mSourceMinZoom :: int
  mSourceMaxZoom :: int
  mArcgisLayerConfiguration :: "string \<rightharpoonup> variant"
  mRenderer :: "'s renderer option"
  mLabeling :: "'b labeling option"
  mValid :: bool
  mExtent :: rectangle
  mCrs :: string

section \<open>Collaborators\<close>

text \<open>
  The operations of the classes whose code is outside the file. \<open>'u\<close> is the state of a
  \<^verbatim>\<open>QgsDataSourceUri\<close> object. \<open>toInt\<close> is \<^verbatim>\<open>QString::toInt(&ok)\<close>: \<open>None\<close> when
  \<^verbatim>\<open>ok\<close> comes back false. \<open>mbTilesOpen\<close> is the construction of a \<^verbatim>\<open>QgsMbTiles\<close>
  reader followed by \<^verbatim>\<open>open()\<close>: \<open>None\<close> when \<^verbatim>\<open>open()\<close> fails. \<open>fromJson\<close> is
  \<^verbatim>\<open>QJsonDocument::fromJson\<close>: \<open>None\<close> when the document is null. The three URL
  operations are \<^verbatim>\<open>QUrl(s).isLocalFile()\<close>, \<^verbatim>\<open>QUrl(s).toLocalFile()\<close> and
  \<^verbatim>\<open>QUrl::fromLocalFile(p).toString()\<close>.
\<close>

record 'u collaborators =
  setEncodedUri :: "string \<Rightarrow> 'u"
  param :: "'u \<Rightarrow> string \<Rightarrow> string"
  hasParam :: "'u \<Rightarrow> string \<Rightarrow> bool"
  removeParam :: "'u \<Rightarrow> string \<Rightarrow> 'u"
  setParam :: "'u \<Rightarrow> string \<Rightarrow> string \<Rightarrow> 'u"
  encodedUri :: "'u \<Rightarrow> string"
  authConfigId :: "'u \<Rightarrow> string"
  toInt :: "string \<Rightarrow> int option"
  mbTilesOpen :: "string \<Rightarrow> mbTiles option"
  transformBoundingBox :: "rectangle \<Rightarrow> rectangle"
  networkGet :: "string \<Rightarrow> networkResult"
  fromJson :: "byteArray \<Rightarrow> jsonDocument option"
  urlIsLocalFile :: "string \<Rightarrow> bool"
  urlToLocalFile :: "string \<Rightarrow> string"
  urlFromLocalFile :: "string \<Rightarrow> string"
  blockingFetchTileRawData ::
    "string \<Rightarrow> string \<Rightarrow> tileMatrix \<Rightarrow> tileRange \<Rightarrow> string \<Rightarrow> string \<Rightarrow> rawData list"

text \<open>The path resolver of a \<^verbatim>\<open>QgsReadWriteContext\<close>.\<close>

record readWriteContext =
  readPath :: "string \<Rightarrow> string"
  writePath :: "string \<Rightarrow> string"

text \<open>\<^verbatim>\<open>QString::toInt()\<close> without the flag: 0 when the conversion fails.\<close>

definition toIntOrZero :: "'u collaborators \<Rightarrow> string \<Rightarrow> int" where
  "toIntOrZero env s = (case toInt env s of Some n \<Rightarrow> n | None \<Rightarrow> 0)"

subsection \<open>Strings\<close>

fun startsWith :: "string \<Rightarrow> string \<Rightarrow> bool" where
  "startsWith s [] = True"
| "startsWith [] (c # cs) = False"
| "startsWith (x # xs) (c # cs) = (x = c \<and> startsWith xs cs)"

text \<open>\<^verbatim>\<open>QString::contains\<close>.\<close>

fun contains :: "string \<Rightarrow> string \<Rightarrow> bool" where
  "contains [] sub = (sub = [])"
| "contains (x # xs) sub = (startsWith (x # xs) sub \<or> contains xs sub)"

text \<open>Modelled from the spec: \<^verbatim>\<open>QgsVectorTileUtils::checkXYZUrlTemplate\<close> is defined in
  \<^verbatim>\<open>qgsvectortileutils.cpp\<close>, which is not among the sources. The spec: a template is
  valid iff it contains the three zoom/column/row placeholders in some recognized syntax;
  the recognized spellings are \<^verbatim>\<open>{x}\<close>, \<^verbatim>\<open>{y}\<close> or \<^verbatim>\<open>{-y}\<close>, and \<^verbatim>\<open>{z}\<close>.\<close>

definition checkXYZUrlTemplate :: "string \<Rightarrow> bool" where
  "checkXYZUrlTemplate url \<longleftrightarrow>
     contains url ''{x}'' \<and> (contains url ''{y}'' \<or> contains url ''{-y}'') \<and> contains url ''{z}''"

subsection \<open>Variants\<close>

text \<open>\<^verbatim>\<open>QJsonDocument::object().toVariantMap()\<close>: the object of a document that is an
  array is empty.\<close>

fun toVariantMap :: "jsonDocument \<Rightarrow> (string \<rightharpoonup> variant)" where
  "toVariantMap (DocObject kvs) = map_of kvs"
| "toVariantMap (DocArray vs) = Map.empty"

text \<open>\<^verbatim>\<open>QVariantMap::value\<close>: a default-constructed (invalid) variant for a missing key.\<close>

definition mapValue :: "(string \<rightharpoonup> variant) \<Rightarrow> string \<Rightarrow> variant" where
  "mapValue m k = (case m k of Some v \<Rightarrow> v | None \<Rightarrow> VInvalid)"

text \<open>\<^verbatim>\<open>QVariant::toList\<close>: the empty list for a variant that is not a list.\<close>

fun variantToList :: "variant \<Rightarrow> variant list" where
  "variantToList (VList vs) = vs"
| "variantToList v = []"

text \<open>\<^verbatim>\<open>QList::value(i)\<close>: a default-constructed value when the index is out of
  bounds.\<close>

definition listValue :: "variant list \<Rightarrow> nat \<Rightarrow> variant" where
  "listValue vs i = (if i < length vs then vs ! i else VInvalid)"

definition digitChar :: "nat \<Rightarrow> char" where
  "digitChar d = (''0123456789'' ! d)"

fun natToString :: "nat \<Rightarrow> string" where
  "natToString n = (if n < 10 then [digitChar n] else natToString (n div 10) @ [digitChar (n mod 10)])"

definition intToString :: "int \<Rightarrow> string" where
  "intToString i = (if i < 0 then CHR ''-'' # natToString (nat (- i)) else natToString (nat i))"

text \<open>\<^verbatim>\<open>QVariant::toString\<close>: the empty string for a variant that has no string form.\<close>

fun variantToString :: "variant \<Rightarrow> string" where
  "variantToString (VString s) = s"
| "variantToString (VNum n) = intToString n"
| "variantToString (VBool b) = (if b then ''true'' else ''false'')"
| "variantToString v = []"

text \<open>\<^verbatim>\<open>QVariant::toInt\<close>: 0 for a variant that has no integer form; a string converts
  as \<^verbatim>\<open>QString::toInt\<close> does.\<close>

fun variantToInt :: "'u collaborators \<Rightarrow> variant \<Rightarrow> int" where
  "variantToInt env (VNum n) = n"
| "variantToInt env (VBool b) = (if b then 1 else 0)"
| "variantToInt env (VString s) = toIntOrZero env s"
| "variantToInt env v = 0"

section \<open>Base class operations\<close>

definition setValid :: "bool \<Rightarrow> ('s, 'b) layer \<Rightarrow> ('s, 'b) layer" where
  "setValid v l = l\<lparr>mValid := v\<rparr>"

definition setExtent :: "rectangle \<Rightarrow> ('s, 'b) layer \<Rightarrow> ('s, 'b) layer" where
  "setExtent r l = l\<lparr>mExtent := r\<rparr>"

definition setCrs :: "string \<Rightarrow> ('s, 'b) layer \<Rightarrow> ('s, 'b) layer" where
  "setCrs c l = l\<lparr>mCrs := c\<rparr>"

definition webMercatorExtent :: rectangle where
  "webMercatorExtent =
     \<lparr>xMinimum = - 20037508.3427892, yMinimum = - 20037508.3427892,
      xMaximum = 20037508.3427892, yMaximum = 20037508.3427892\<rparr>"

section \<open>Renderer and labeling\<close>

definition setRenderer :: "'s renderer option \<Rightarrow> ('s, 'b) layer \<Rightarrow> ('s, 'b) layer" where
  "setRenderer r l = l\<lparr>mRenderer := r\<rparr>"

definition renderer :: "('s, 'b) layer \<Rightarrow> 's renderer option" where
  "renderer l = mRenderer l"

definition setLabeling :: "'b labeling option \<Rightarrow> ('s, 'b) layer \<Rightarrow> ('s, 'b) layer" where
  "setLabeling lab l = l\<lparr>mLabeling := lab\<rparr>"

definition labeling :: "('s, 'b) layer \<Rightarrow> 'b labeling option" where
  "labeling l = mLabeling l"

section \<open>Data source resolution\<close>

text \<open>\<^verbatim>\<open>QgsVectorTileLayer::setupArcgisVectorTileServiceConnection\<close>. Every
  \<^verbatim>\<open>return false\<close> of the source is a branch that returns \<open>False\<close> with the members as
  they are at that point.\<close>

definition setupArcgisVectorTileServiceConnection ::
  "'u collaborators \<Rightarrow> string \<Rightarrow> ('s, 'b) layer \<Rightarrow> bool \<times> ('s, 'b) layer" where
  "setupArcgisVectorTileServiceConnection env uri l =
     (case networkGet env uri of
        NetworkError \<Rightarrow> (False, l)
      | TimeoutError \<Rightarrow> (False, l)
      | ServerExceptionError \<Rightarrow> (False, l)
      | NoError raw \<Rightarrow>
          (case fromJson env raw of
             None \<Rightarrow> (False, l)
           | Some doc \<Rightarrow>
               (let l1 = l\<lparr>mArcgisLayerConfiguration := toVariantMap doc\<rparr> in
                if mArcgisLayerConfiguration l1 ''error'' \<noteq> None then (False, l1)
                else
                  (let l2 = l1\<lparr>mArcgisLayerConfiguration :=
                               (mArcgisLayerConfiguration l1)(''serviceUri'' \<mapsto> VString uri)\<rparr>;
                       l3 = l2\<lparr>mSourcePath :=
                               uri @ CHR ''/'' #
                               variantToString
                                 (listValue (variantToList (mapValue (mArcgisLayerConfiguration l2) ''tiles'')) 0)\<rparr>
                   in
                   if \<not> checkXYZUrlTemplate (mSourcePath l3) then (False, l3)
                   else
                     (let l4 = l3\<lparr>mSourceMinZoom := 0\<rparr>;
                          l5 = l4\<lparr>mSourceMaxZoom :=
                                  variantToInt env (mapValue (mArcgisLayerConfiguration l4) ''maxzoom'')\<rparr>
                      in (True, setExtent webMercatorExtent l5))))))"

text \<open>\<^verbatim>\<open>QgsVectorTileLayer::loadDataSource\<close>.\<close>

definition loadDataSource :: "'u collaborators \<Rightarrow> ('s, 'b) layer \<Rightarrow> bool \<times> ('s, 'b) layer" where
  "loadDataSource env l =
     (let dsUri = setEncodedUri env (mDataSource l);
          l1 = l\<lparr>mSourceType := param env dsUri ''type''\<rparr>;
          l2 = l1\<lparr>mSourcePath := param env dsUri ''url''\<rparr>
      in
      if mSourceType l2 = ''xyz'' \<and> param env dsUri ''serviceType'' = ''arcgis'' then
        (case setupArcgisVectorTileServiceConnection env (mSourcePath l2) l2 of
           (ok, l3) \<Rightarrow> if \<not> ok then (False, l3) else (True, setCrs ''EPSG:3857'' l3))
      else if mSourceType l2 = ''xyz'' then
        (if \<not> checkXYZUrlTemplate (mSourcePath l2) then (False, l2)
         else
           (let l3 = l2\<lparr>mSourceMinZoom := 0\<rparr>;
                l4 = l3\<lparr>mSourceMaxZoom := 14\<rparr>;
                l5 = (if hasParam env dsUri ''zmin''
                      then l4\<lparr>mSourceMinZoom := toIntOrZero env (param env dsUri ''zmin'')\<rparr>
                      else l4);
                l6 = (if hasParam env dsUri ''zmax''
                      then l5\<lparr>mSourceMaxZoom := toIntOrZero env (param env dsUri ''zmax'')\<rparr>
                      else l5)
            in (True, setCrs ''EPSG:3857'' (setExtent webMercatorExtent l6))))
      else if mSourceType l2 = ''mbtiles'' then
        (case mbTilesOpen env (mSourcePath l2) of
           None \<Rightarrow> (False, l2)
         | Some reader \<Rightarrow>
             (let format = metadataValue reader ''format'' in
              if format \<noteq> ''pbf'' then (False, l2)
              else
                (let minZoom = toInt env (metadataValue reader ''minzoom'');
                     maxZoom = toInt env (metadataValue reader ''maxzoom'');
                     l3 = (case minZoom of Some n \<Rightarrow> l2\<lparr>mSourceMinZoom := n\<rparr> | None \<Rightarrow> l2);
                     l4 = (case maxZoom of Some n \<Rightarrow> l3\<lparr>mSourceMaxZoom := n\<rparr> | None \<Rightarrow> l3);
                     r = transformBoundingBox env (mbExtent reader)
                 in (True, setCrs ''EPSG:3857'' (setExtent r l4)))))
      else (False, l2))"

text \<open>The constructor. \<open>l0\<close> is the object after the base class constructor and the
  default member initialisers of the header have run; \<open>styles\<close> is the result of
  \<^verbatim>\<open>QgsVectorTileBasicRenderer::simpleStyleWithRandomColors()\<close>.\<close>

definition QgsVectorTileLayer ::
  "'u collaborators \<Rightarrow> 's \<Rightarrow> ('s, 'b) layer \<Rightarrow> string \<Rightarrow> ('s, 'b) layer" where
  "QgsVectorTileLayer env styles l0 uri =
     (let l1 = l0\<lparr>mDataSource := uri\<rparr>;
          (ok, l2) = loadDataSource env l1;
          l3 = setValid ok l2
      in setRenderer (Some (BasicRenderer styles)) l3)"

section \<open>Raw tile fetch\<close>

text \<open>The one operation of \<^verbatim>\<open>getRawTile\<close> that can fail inside the file:
  \<^verbatim>\<open>QList::first()\<close> requires a non-empty list and aborts on an empty one.\<close>

datatype failure = FirstOfEmptyList

definition listFirst :: "'a list \<Rightarrow> failure + 'a" where
  "listFirst xs = (case xs of [] \<Rightarrow> Inl FirstOfEmptyList | x # _ \<Rightarrow> Inr x)"

text \<open>\<^verbatim>\<open>QgsVectorTileLayer::getRawTile\<close>. The view origin handed to the loader is the
  constant \<^verbatim>\<open>QPointF()\<close> and is left out. The result is the returned byte array, or
  the failure of \<^verbatim>\<open>first()\<close>.\<close>

definition getRawTile ::
  "'u collaborators \<Rightarrow> ('s, 'b) layer \<Rightarrow> tileXYZ \<Rightarrow> failure + byteArray" where
  "getRawTile env l tileID =
     (let tileMatrix = FromWebMercator (zoomLevel tileID);
          tileRange = \<lparr>startColumn = column tileID, endColumn = column tileID,
                       startRow = row tileID, endRow = row tileID\<rparr>;
          dsUri = setEncodedUri env (mDataSource l);
          authcfg = authConfigId env dsUri;
          referer = param env dsUri ''referer'';
          rawTiles = blockingFetchTileRawData env (mSourceType l) (mSourcePath l)
                       tileMatrix tileRange authcfg referer
      in if rawTiles = [] then Inr []
         else (case listFirst rawTiles of
                 Inl e \<Rightarrow> Inl e
               | Inr rawTile \<Rightarrow> Inr (tileData rawTile)))"

section \<open>Reading the symbology\<close>

text \<open>What \<^verbatim>\<open>readSymbology\<close> calls outside the file: \<^verbatim>\<open>QgsMapLayer::readCommonStyle\<close>,
  and \<^verbatim>\<open>readXml\<close> on a new basic renderer and on a new basic labeling.\<close>

record ('s, 'b) styleReaders =
  readCommonStyle :: "domElement option \<Rightarrow> styleCategory set \<Rightarrow> ('s, 'b) layer \<Rightarrow> ('s, 'b) layer"
  rendererReadXml :: "domElement \<Rightarrow> 's"
  labelingReadXml :: "domElement \<Rightarrow> 'b"

text \<open>\<^verbatim>\<open>QDomElement::firstChildElement\<close>: null when the element is null or has no child
  of that tag name.\<close>

definition firstChildElement :: "domElement option \<Rightarrow> string \<Rightarrow> domElement option" where
  "firstChildElement e name =
     (case e of None \<Rightarrow> None | Some el \<Rightarrow> find (\<lambda>c. tagName c = name) (childElements el))"

text \<open>\<^verbatim>\<open>QDomElement::attribute\<close>: the empty string when the attribute is missing.\<close>

definition attribute :: "domElement \<Rightarrow> string \<Rightarrow> string" where
  "attribute e name = (case map_of (attributes e) name of Some v \<Rightarrow> v | None \<Rightarrow> [])"

text \<open>\<^verbatim>\<open>QgsVectorTileLayer::readSymbology\<close>. The result is the returned flag, the error
  message (an in-out argument of the source) and the layer. The message of the labeling
  branch is built from \<^verbatim>\<open>rendererType\<close>, as in the source.\<close>

definition readSymbology ::
  "('s, 'b) styleReaders \<Rightarrow> domElement option \<Rightarrow> string \<Rightarrow> styleCategory set \<Rightarrow>
     ('s, 'b) layer \<Rightarrow> bool \<times> string \<times> ('s, 'b) layer" where
  "readSymbology rd node errorMessage categories l =
     (let elem = node;
          l1 = readCommonStyle rd elem categories l
      in
      case firstChildElement elem ''renderer'' of
        None \<Rightarrow> (False, ''Missing <renderer> tag'', l1)
      | Some elemRenderer \<Rightarrow>
          (let rendererType = attribute elemRenderer ''type'' in
           if Symbology \<in> categories \<and> rendererType \<noteq> ''basic''
           then (False, ''Unknown renderer type: '' @ rendererType, l1)
           else
             (let l2 = (if Symbology \<in> categories
                        then setRenderer (Some (BasicRenderer (rendererReadXml rd elemRenderer))) l1
                        else l1)
              in
              if Labeling \<in> categories then
                (let l3 = setLabeling None l2 in
                 case firstChildElement elem ''labeling'' of
                   None \<Rightarrow> (True, errorMessage, l3)
                 | Some elemLabeling \<Rightarrow>
                     (let labelingType = attribute elemLabeling ''type'' in
                      if labelingType = ''basic''
                      then (True, errorMessage,
                            setLabeling (Some (BasicLabeling (labelingReadXml rd elemLabeling))) l3)
                      else (True, ''Unknown labeling type: '' @ rendererType, l3)))
              else (True, errorMessage, l2))))"

section \<open>Encoding and decoding the source for storage\<close>

text \<open>\<^verbatim>\<open>QgsVectorTileLayer::encodedSource\<close>.\<close>

definition encodedSource :: "'u collaborators \<Rightarrow> readWriteContext \<Rightarrow> string \<Rightarrow> string" where
  "encodedSource env context source =
     (let dsUri = setEncodedUri env source;
          sourceType = param env dsUri ''type'';
          sourcePath = param env dsUri ''url''
      in
      if sourceType = ''xyz'' then
        (if urlIsLocalFile env sourcePath then
           (let relSrcUrl = writePath context (urlToLocalFile env sourcePath);
                dsUri1 = removeParam env dsUri ''url'';
                dsUri2 = setParam env dsUri1 ''url'' (urlFromLocalFile env relSrcUrl)
            in encodedUri env dsUri2)
         else source)
      else if sourceType = ''mbtiles'' then
        (let sourcePath1 = writePath context sourcePath;
             dsUri1 = removeParam env dsUri ''url'';
             dsUri2 = setParam env dsUri1 ''url'' sourcePath1
         in encodedUri env dsUri2)
      else source)"

text \<open>\<^verbatim>\<open>QgsVectorTileLayer::decodedSource\<close>; the provider argument is unused.\<close>

definition decodedSource :: "'u collaborators \<Rightarrow> readWriteContext \<Rightarrow> string \<Rightarrow> string" where
  "decodedSource env context source =
     (let dsUri = setEncodedUri env source;
          sourceType = param env dsUri ''type'';
          sourcePath = param env dsUri ''url''
      in
      if sourceType = ''xyz'' then
        (if urlIsLocalFile env sourcePath then
           (let absSrcUrl = readPath context (urlToLocalFile env sourcePath);
                dsUri1 = removeParam env dsUri ''url'';
                dsUri2 = setParam env dsUri1 ''url'' (urlFromLocalFile env absSrcUrl)
            in encodedUri env dsUri2)
         else source)
      else if sourceType = ''mbtiles'' then
        (let sourcePath1 = readPath context sourcePath;
             dsUri1 = removeParam env dsUri ''url'';
             dsUri2 = setParam env dsUri1 ''url'' sourcePath1
         in encodedUri env dsUri2)
      else source)"

section \<open>A reference instance of the collaborators\<close>

text \<open>
  Concrete collaborators, to run the functions above on concrete connection strings.
  Modelled from the spec: \<^verbatim>\<open>QgsDataSourceUri\<close> is defined in
  \<^verbatim>\<open>qgsdatasourceuri.cpp\<close>, which is not among the sources. The spec: the connection
  string is a flat key=value encoded URI, parsed into a flat parameter mapping, and the
  connection string round trip must be lossless for all parameters; the source adds
  that \<^verbatim>\<open>setParam\<close> inserts a further entry for a key that is present. The instance
  splits the string at \<^verbatim>\<open>&\<close> and each item at its first \<^verbatim>\<open>=\<close>; in keys and values
  the three characters \<^verbatim>\<open>%\<close>, \<^verbatim>\<open>&\<close> and \<^verbatim>\<open>=\<close> are percent-encoded, so that
  every parameter list is read back from its printed form.
\<close>

definition encodeChar :: "char \<Rightarrow> string" where
  "encodeChar c =
     (if c = CHR ''%'' then ''%25''
      else if c = CHR ''&'' then ''%26''
      else if c = CHR ''='' then ''%3D''
      else [c])"

definition percentEncode :: "string \<Rightarrow> string" where
  "percentEncode s = concat (map encodeChar s)"

fun percentDecode :: "string \<Rightarrow> string" where
  "percentDecode (c # a # b # rest) =
     (if c = CHR ''%'' \<and> a = CHR ''2'' \<and> b = CHR ''5'' then CHR ''%'' # percentDecode rest
      else if c = CHR ''%'' \<and> a = CHR ''2'' \<and> b = CHR ''6'' then CHR ''&'' # percentDecode rest
      else if c = CHR ''%'' \<and> a = CHR ''3'' \<and> b = CHR ''D'' then CHR ''='' # percentDecode rest
      else c # percentDecode (a # b # rest))"
| "percentDecode s = s"

fun splitOn :: "char \<Rightarrow> string \<Rightarrow> string list" where
  "splitOn c [] = [[]]"
| "splitOn c (x # xs) =
     (if x = c then [] # splitOn c xs
      else (case splitOn c xs of [] \<Rightarrow> [[x]] | y # ys \<Rightarrow> (x # y) # ys))"

definition kvItem :: "string \<Rightarrow> string \<times> string" where
  "kvItem s =
     (percentDecode (takeWhile (\<lambda>c. c \<noteq> CHR ''='') s),
      percentDecode (drop 1 (dropWhile (\<lambda>c. c \<noteq> CHR ''='') s)))"

definition kvParse :: "string \<Rightarrow> (string \<times> string) list" where
  "kvParse s = (if s = [] then [] else map kvItem (splitOn (CHR ''&'') s))"

definition kvPrintItem :: "string \<times> string \<Rightarrow> string" where
  "kvPrintItem kv = percentEncode (fst kv) @ CHR ''='' # percentEncode (snd kv)"

fun kvPrint :: "(string \<times> string) list \<Rightarrow> string" where
  "kvPrint [] = []"
| "kvPrint [kv] = kvPrintItem kv"
| "kvPrint (kv # p # ps) = kvPrintItem kv @ CHR ''&'' # kvPrint (p # ps)"

definition kvParam :: "(string \<times> string) list \<Rightarrow> string \<Rightarrow> string" where
  "kvParam ps k = (case map_of ps k of Some v \<Rightarrow> v | None \<Rightarrow> [])"

definition kvHasParam :: "(string \<times> string) list \<Rightarrow> string \<Rightarrow> bool" where
  "kvHasParam ps k \<longleftrightarrow> map_of ps k \<noteq> None"

definition kvRemoveParam :: "(string \<times> string) list \<Rightarrow> string \<Rightarrow> (string \<times> string) list" where
  "kvRemoveParam ps k = filter (\<lambda>kv. fst kv \<noteq> k) ps"

definition kvSetParam ::
  "(string \<times> string) list \<Rightarrow> string \<Rightarrow> string \<Rightarrow> (string \<times> string) list" where
  "kvSetParam ps k v = ps @ [(k, v)]"

text \<open>Decimal integers with an optional sign, in the range of a 32-bit \<^verbatim>\<open>int\<close>.\<close>

fun indexOf :: "char \<Rightarrow> string \<Rightarrow> int option" where
  "indexOf c [] = None"
| "indexOf c (x # xs) = (if c = x then Some 0 else map_option (\<lambda>i. i + 1) (indexOf c xs))"

definition digitValue :: "char \<Rightarrow> int option" where
  "digitValue c = indexOf c ''0123456789''"

fun digitsValue :: "string \<Rightarrow> int \<Rightarrow> int option" where
  "digitsValue [] acc = Some acc"
| "digitsValue (c # cs) acc =
     (case digitValue c of None \<Rightarrow> None | Some d \<Rightarrow> digitsValue cs (10 * acc + d))"

definition decimalToInt :: "string \<Rightarrow> int option" where
  "decimalToInt s =
     (case s of
        [] \<Rightarrow> None
      | c # cs \<Rightarrow>
          if c = CHR ''-'' then
            (if cs = [] then None
             else (case digitsValue cs 0 of
                     None \<Rightarrow> None
                   | Some n \<Rightarrow> if n \<le> 2147483648 then Some (- n) else None))
          else
            (let ds = (if c = CHR ''+'' then cs else s) in
             if ds = [] then None
             else (case digitsValue ds 0 of
                     None \<Rightarrow> None
                   | Some n \<Rightarrow> if n \<le> 2147483647 then Some n else None)))"

text \<open>URLs: a local-file URL has the scheme \<^verbatim>\<open>file\<close>; a relative path becomes
  \<^verbatim>\<open>file:./x.txt\<close>, as the source remarks; the URL made from the empty path is the
  empty URL, which is not a local-file URL.\<close>

definition fileUrlIsLocalFile :: "string \<Rightarrow> bool" where
  "fileUrlIsLocalFile s \<longleftrightarrow> startsWith s ''file:''"

definition fileUrlToLocalFile :: "string \<Rightarrow> string" where
  "fileUrlToLocalFile s =
     (if startsWith s ''file://'' then drop 7 s
      else if startsWith s ''file:'' then drop 5 s
      else [])"

definition fileUrlFromLocalFile :: "string \<Rightarrow> string" where
  "fileUrlFromLocalFile p =
     (if p = [] then [] else if startsWith p ''/'' then ''file://'' @ p else ''file:'' @ p)"

text \<open>The instance takes the outside world as arguments: the MBTiles archives on disk,
  the network, the JSON parser, the bounding box transformation and the tile loader.\<close>

definition referenceCollaborators ::
  "(string \<Rightarrow> mbTiles option) \<Rightarrow> (string \<Rightarrow> networkResult) \<Rightarrow>
     (byteArray \<Rightarrow> jsonDocument option) \<Rightarrow> (rectangle \<Rightarrow> rectangle) \<Rightarrow>
     (string \<Rightarrow> string \<Rightarrow> tileMatrix \<Rightarrow> tileRange \<Rightarrow> string \<Rightarrow> string \<Rightarrow> rawData list) \<Rightarrow>
     (string \<times> string) list collaborators" where
  "referenceCollaborators files net json transform loader =
     \<lparr>setEncodedUri = kvParse, param = kvParam, hasParam = kvHasParam,
      removeParam = kvRemoveParam, setParam = kvSetParam, encodedUri = kvPrint,
      authConfigId = (\<lambda>ps. kvParam ps ''authcfg''), toInt = decimalToInt,
      mbTilesOpen = files, transformBoundingBox = transform, networkGet = net,
      fromJson = json, urlIsLocalFile = fileUrlIsLocalFile,
      urlToLocalFile = fileUrlToLocalFile, urlFromLocalFile = fileUrlFromLocalFile,
      blockingFetchTileRawData = loader\<rparr>"

text \<open>A world with no archive, no network and no tiles.\<close>

definition offlineCollaborators :: "(string \<times> string) list collaborators" where
  "offlineCollaborators =
     referenceCollaborators (\<lambda>p. None) (\<lambda>u. NetworkError) (\<lambda>raw. None) (\<lambda>r. r)
       (\<lambda>t p m r a f. [])"

text \<open>A path resolver for a project in directory \<open>dir\<close>: a path below the directory is
  written relative to it (\<^verbatim>\<open>./name\<close>), and a relative path is read back below it; any
  other path is left as it is.\<close>

definition projectContext :: "string \<Rightarrow> readWriteContext" where
  "projectContext dir =
     \<lparr>readPath = (\<lambda>p. if startsWith p ''./'' then dir @ drop 1 p else p),
      writePath = (\<lambda>p. if startsWith p (dir @ ''/'') then CHR ''.'' # drop (length dir) p else p)\<rparr>"

text \<open>A layer object before the constructor body runs.\<close>

definition newLayer :: "(unit, unit) layer" where
  "newLayer =
     \<lparr>mDataSource = [], mSourceType = [], mSourcePath = [],
      mSourceMinZoom = - 1, mSourceMaxZoom = - 1,
      mArcgisLayerConfiguration = Map.empty, mRenderer = None, mLabeling = None,
      mValid = False,
      mExtent = \<lparr>xMinimum = 0, yMinimum = 0, xMaximum = 0, yMaximum = 0\<rparr>,
      mCrs = []\<rparr>"

section \<open>Sample inputs\<close>

text \<open>A world whose only archive is \<^verbatim>\<open>/data/world.mbtiles\<close>, with the given metadata
  table.\<close>

definition archiveCollaborators ::
  "(string \<times> string) list \<Rightarrow> (string \<times> string) list collaborators" where
  "archiveCollaborators meta =
     referenceCollaborators
       (\<lambda>p. if p = ''/data/world.mbtiles''
            then Some \<lparr>metadataValue = kvParam meta,
                       mbExtent = \<lparr>xMinimum = - 180, yMinimum = - 85,
                                   xMaximum = 180, yMaximum = 85\<rparr>\<rparr>
            else None)
       (\<lambda>u. NetworkError) (\<lambda>raw. None) (\<lambda>r. r) (\<lambda>t p m r a f. [])"

definition archiveLayer :: "(unit, unit) layer" where
  "archiveLayer = newLayer\<lparr>mDataSource := ''type=mbtiles&url=/data/world.mbtiles''\<rparr>"

text \<open>A world whose only service is \<^verbatim>\<open>https://server.example/VectorTileServer\<close>; the
  request for it ends as \<open>reply\<close>, and the JSON parser turns the content into
  \<open>parsed\<close>.\<close>

definition serviceCollaborators ::
  "networkResult \<Rightarrow> jsonDocument option \<Rightarrow> (string \<times> string) list collaborators" where
  "serviceCollaborators reply parsed =
     referenceCollaborators (\<lambda>p. None)
       (\<lambda>u. if u = ''https://server.example/VectorTileServer'' then reply else NetworkError)
       (\<lambda>raw. parsed) (\<lambda>r. r) (\<lambda>t p m r a f. [])"

definition serviceDocumentText :: byteArray where
  \<open>serviceDocumentText = ''{"tiles": ["{z}/{x}/{y}.pbf"], "maxzoom": 16}''\<close>

definition serviceDocument :: jsonDocument where
  "serviceDocument =
     DocObject [(''tiles'', VList [VString ''{z}/{x}/{y}.pbf'']), (''maxzoom'', VNum 16)]"

definition serviceLayer :: "(unit, unit) layer" where
  "serviceLayer =
     newLayer\<lparr>mDataSource :=
       ''type=xyz&serviceType=arcgis&url=https://server.example/VectorTileServer''\<rparr>"

definition xyzLayer :: "string \<Rightarrow> (unit, unit) layer" where
  "xyzLayer zooms =
     newLayer\<lparr>mDataSource := ''type=xyz&url=http://tiles.example/{z}/{x}/{y}.pbf'' @ zooms\<rparr>"

definition plainReaders :: "(unit, unit) styleReaders" where
  "plainReaders =
     \<lparr>readCommonStyle = (\<lambda>e c l. l), rendererReadXml = (\<lambda>e. ()),
      labelingReadXml = (\<lambda>e. ())\<rparr>"

definition styledNode :: "string \<Rightarrow> string \<Rightarrow> domElement option" where
  "styledNode rendererType labelingType =
     Some (Element ''maplayer'' []
       [Element ''renderer'' [(''type'', rendererType)] [],
        Element ''labeling'' [(''type'', labelingType)] []])"

text \<open>A resolver that reads the relative path \<^verbatim>\<open>./x\<close> as the empty path and writes
  the empty path as \<^verbatim>\<open>./x\<close>.\<close>

definition emptyingContext :: readWriteContext where
  "emptyingContext =
     \<lparr>readPath = (\<lambda>p. if p = ''./x'' then [] else p),
      writePath = (\<lambda>p. if p = [] then ''./x'' else p)\<rparr>"

text \<open>A world whose tile loader has tiles up to zoom level 14 only: it answers with
  the single requested tile there, and with no tile for any other zoom level.\<close>

definition tileCollaborators :: "(string \<times> string) list collaborators" where
  "tileCollaborators =
     referenceCollaborators (\<lambda>p. None) (\<lambda>u. NetworkError) (\<lambda>raw. None) (\<lambda>r. r)
       (\<lambda>t p m r a f.
          case m of FromWebMercator z \<Rightarrow>
            if 0 \<le> z \<and> z \<le> 14
            then [\<lparr>tileId = \<lparr>column = startColumn r, row = startRow r, zoomLevel = z\<rparr>,
                   tileData = ''tile''\<rparr>]
            else [])"

lemmas reference_defs =
  offlineCollaborators_def referenceCollaborators_def kvParse_def kvItem_def kvParam_def
  kvHasParam_def kvRemoveParam_def kvSetParam_def kvPrintItem_def percentEncode_def
  encodeChar_def decimalToInt_def digitValue_def toIntOrZero_def checkXYZUrlTemplate_def
  newLayer_def

lemmas layer_defs = setCrs_def setExtent_def setValid_def setRenderer_def setLabeling_def

section \<open>Auxiliary facts\<close>

lemma contains_append: "contains ys sub \<Longrightarrow> contains (xs @ ys) sub"
  by (induction xs) auto

lemma arcgis_template_valid: "checkXYZUrlTemplate (uri @ ''/{z}/{x}/{y}.pbf'')"
  unfolding checkXYZUrlTemplate_def
  by (intro conjI disjI1 contains_append) simp_all

lemma setup_arcgis_success:
  assumes "networkGet env uri = NoError raw"
    and "fromJson env raw = Some doc"
    and "toVariantMap doc ''error'' = None"
    and "toVariantMap doc ''tiles'' = Some (VList (VString ''{z}/{x}/{y}.pbf'' # others))"
    and "toVariantMap doc ''maxzoom'' = Some (VNum 16)"
  shows "setupArcgisVectorTileServiceConnection env uri l =
           (True, l\<lparr>mArcgisLayerConfiguration := (toVariantMap doc)(''serviceUri'' \<mapsto> VString uri),
                    mSourcePath := uri @ ''/{z}/{x}/{y}.pbf'',
                    mSourceMinZoom := 0, mSourceMaxZoom := 16,
                    mExtent := webMercatorExtent\<rparr>)"
  using assms arcgis_template_valid [of uri]
  by (simp add: setupArcgisVectorTileServiceConnection_def Let_def mapValue_def listValue_def
        setExtent_def)

lemma setup_arcgis_failure:
  "networkGet env uri = NetworkError \<or> networkGet env uri = TimeoutError \<or>
   networkGet env uri = ServerExceptionError \<or>
   (networkGet env uri = NoError raw \<and> fromJson env raw = None) \<or>
   (networkGet env uri = NoError raw \<and> fromJson env raw = Some doc \<and>
    toVariantMap doc ''error'' \<noteq> None) \<Longrightarrow>
   \<not> fst (setupArcgisVectorTileServiceConnection env uri l)"
  by (auto simp: setupArcgisVectorTileServiceConnection_def Let_def)

lemma setup_arcgis_zooms:
  "fst (setupArcgisVectorTileServiceConnection env uri l) \<Longrightarrow>
   \<exists>raw doc. networkGet env uri = NoError raw \<and> fromJson env raw = Some doc \<and>
     mSourceMinZoom (snd (setupArcgisVectorTileServiceConnection env uri l)) = 0 \<and>
     mSourceMaxZoom (snd (setupArcgisVectorTileServiceConnection env uri l)) =
       variantToInt env (mapValue (toVariantMap doc) ''maxzoom'')"
  by (auto simp: setupArcgisVectorTileServiceConnection_def Let_def setExtent_def mapValue_def
           split: networkResult.splits option.splits if_splits)

lemma load_arcgis:
  assumes "param env (setEncodedUri env (mDataSource l)) ''type'' = ''xyz''"
    and "param env (setEncodedUri env (mDataSource l)) ''serviceType'' = ''arcgis''"
  shows "loadDataSource env l =
     (case setupArcgisVectorTileServiceConnection env
             (param env (setEncodedUri env (mDataSource l)) ''url'')
             (l\<lparr>mSourceType := ''xyz'',
                mSourcePath := param env (setEncodedUri env (mDataSource l)) ''url''\<rparr>) of
        (ok, l3) \<Rightarrow> if \<not> ok then (False, l3) else (True, setCrs ''EPSG:3857'' l3))"
  using assms by (simp add: loadDataSource_def Let_def)

lemma decode_plain:
  assumes "c \<noteq> CHR ''%''"
  shows "percentDecode (c # s) = c # percentDecode s"
proof (cases s)
  case Nil then show ?thesis by simp
next
  case (Cons a t)
  with assms show ?thesis by (cases t) simp_all
qed

lemma decode_encode: "percentDecode (percentEncode x) = x"
proof (induction x)
  case Nil then show ?case by (simp add: percentEncode_def)
next
  case (Cons c x)
  then show ?case
    by (auto simp: percentEncode_def encodeChar_def decode_plain)
qed

lemma encode_no_separator:
  "CHR ''&'' \<notin> set (percentEncode x)" "CHR ''='' \<notin> set (percentEncode x)"
  by (induction x) (auto simp: percentEncode_def encodeChar_def)

lemma splitOn_absent: "c \<notin> set s \<Longrightarrow> splitOn c s = [s]"
  by (induction s) auto

lemma splitOn_first: "c \<notin> set s \<Longrightarrow> splitOn c (s @ c # t) = s # splitOn c t"
  by (induction s) auto

lemma item_no_amp: "CHR ''&'' \<notin> set (kvPrintItem kv)"
  by (simp add: kvPrintItem_def encode_no_separator)

lemma item_not_empty: "kvPrintItem kv \<noteq> []"
  by (simp add: kvPrintItem_def)

lemma takeWhile_until: "c \<notin> set s \<Longrightarrow> takeWhile (\<lambda>x. x \<noteq> c) (s @ c # t) = s"
  by (induction s) auto

lemma dropWhile_until: "c \<notin> set s \<Longrightarrow> dropWhile (\<lambda>x. x \<noteq> c) (s @ c # t) = c # t"
  by (induction s) auto

lemma kvItem_printed: "kvItem (kvPrintItem kv) = kv"
  by (simp add: kvItem_def kvPrintItem_def takeWhile_until dropWhile_until
        encode_no_separator decode_encode)

lemma print_not_empty: "ps \<noteq> [] \<Longrightarrow> kvPrint ps \<noteq> []"
  by (induction ps rule: kvPrint.induct) (simp_all add: item_not_empty)

lemma split_printed: "ps \<noteq> [] \<Longrightarrow> map kvItem (splitOn (CHR ''&'') (kvPrint ps)) = ps"
  by (induction ps rule: kvPrint.induct)
     (simp_all add: splitOn_absent splitOn_first item_no_amp kvItem_printed)

lemma parse_print: "kvParse (kvPrint ps) = ps"
  by (cases "ps = []") (simp_all add: kvParse_def print_not_empty split_printed)

lemma map_of_filter_same: "map_of (filter (\<lambda>kv. fst kv \<noteq> k) ps) k = None"
  by (induction ps) auto

lemma map_of_filter_other:
  "k' \<noteq> k \<Longrightarrow> map_of (filter (\<lambda>kv. fst kv \<noteq> k) ps) k' = map_of ps k'"
  by (induction ps) auto

lemma kvParam_replaced:
  "kvParam (kvSetParam (kvRemoveParam u k) k v) k = v"
  "k' \<noteq> k \<Longrightarrow> kvParam (kvSetParam (kvRemoveParam u k) k v) k' = kvParam u k'"
  by (simp_all add: kvParam_def kvSetParam_def kvRemoveParam_def map_add_def
        map_of_filter_same map_of_filter_other split: option.splits)

lemma kvRemoveParam_replaced:
  "kvRemoveParam (kvSetParam (kvRemoveParam u k) k v) k = kvRemoveParam u k"
  by (simp add: kvSetParam_def kvRemoveParam_def)

lemma fileUrl_roundtrip: "fileUrlToLocalFile (fileUrlFromLocalFile p) = p"
  by (cases p) (auto simp: fileUrlToLocalFile_def fileUrlFromLocalFile_def)

section \<open>Claims\<close>

subsection \<open>C1: source strings across encoding and decoding\<close>

text \<open>
  C1 as stated: for every connection string of type \<^verbatim>\<open>mbtiles\<close> (or of type \<^verbatim>\<open>xyz\<close>
  with a local-file URL) and every resolver context, encoding the decoded string gives
  the string back. It fails in three ways, one for each line of the statement below.
  The path may be one that the resolver's \<^verbatim>\<open>writePath\<close> does not produce: in a
  project in \<^verbatim>\<open>/project\<close>, the absolute path \<^verbatim>\<open>/project/tiles.mbtiles\<close> is read as
  it is and written as \<^verbatim>\<open>./tiles.mbtiles\<close>. The string may not be in the form that
  the encoder prints, although the resolver gives its path back: both functions remove
  the \<^verbatim>\<open>url\<close> parameter and set it again, so \<^verbatim>\<open>url=./tiles.mbtiles&type=mbtiles\<close>
  comes back with \<^verbatim>\<open>url\<close> last. The decoded URL of an \<^verbatim>\<open>xyz\<close> source may not be a
  local-file URL, although the resolver gives its path back: when the resolver reads the
  path as the empty path, the decoded URL is empty and the encoder leaves it alone.
\<close>

theorem storage_round_trip_counterexample:
  "param offlineCollaborators
     (setEncodedUri offlineCollaborators ''type=mbtiles&url=/project/tiles.mbtiles'')
     ''type'' = ''mbtiles'' \<and>
   encodedSource offlineCollaborators (projectContext ''/project'')
     (decodedSource offlineCollaborators (projectContext ''/project'')
        ''type=mbtiles&url=/project/tiles.mbtiles'')
     = ''type=mbtiles&url=./tiles.mbtiles'' \<and>
   encodedSource offlineCollaborators (projectContext ''/project'')
     (decodedSource offlineCollaborators (projectContext ''/project'')
        ''type=mbtiles&url=/project/tiles.mbtiles'')
     \<noteq> ''type=mbtiles&url=/project/tiles.mbtiles'' \<and>
   param offlineCollaborators
     (setEncodedUri offlineCollaborators ''url=./tiles.mbtiles&type=mbtiles'')
     ''type'' = ''mbtiles'' \<and>
   writePath (projectContext ''/project'') (readPath (projectContext ''/project'')
       (param offlineCollaborators
          (setEncodedUri offlineCollaborators ''url=./tiles.mbtiles&type=mbtiles'') ''url''))
     = param offlineCollaborators
         (setEncodedUri offlineCollaborators ''url=./tiles.mbtiles&type=mbtiles'') ''url'' \<and>
   encodedSource offlineCollaborators (projectContext ''/project'')
     (decodedSource offlineCollaborators (projectContext ''/project'')
        ''url=./tiles.mbtiles&type=mbtiles'')
     \<noteq> ''url=./tiles.mbtiles&type=mbtiles'' \<and>
   param offlineCollaborators
     (setEncodedUri offlineCollaborators ''type=xyz&url=file:./x'') ''type'' = ''xyz'' \<and>
   urlIsLocalFile offlineCollaborators
     (param offlineCollaborators
        (setEncodedUri offlineCollaborators ''type=xyz&url=file:./x'') ''url'') \<and>
   writePath emptyingContext (readPath emptyingContext ''./x'') = ''./x'' \<and>
   encodedSource offlineCollaborators emptyingContext
     (decodedSource offlineCollaborators emptyingContext ''type=xyz&url=file:./x'')
     \<noteq> ''type=xyz&url=file:./x''"
  by (simp add: encodedSource_def decodedSource_def projectContext_def emptyingContext_def
        reference_defs fileUrlIsLocalFile_def fileUrlToLocalFile_def fileUrlFromLocalFile_def
        Let_def)

text \<open>
  C1, amended. With the data source URI and the URLs of the reference instance, for
  every resolver context \<open>ctx\<close> and every connection string \<open>s\<close> with path \<open>path\<close> (its
  \<^verbatim>\<open>url\<close> parameter): \<open>encodedSource (decodedSource s) = s\<close> holds when \<open>s\<close> is of type
  \<^verbatim>\<open>mbtiles\<close>, the resolver gives the path back (\<open>writePath (readPath path) = path\<close>)
  and \<open>s\<close> is in the form that the encoder prints (its parameters with \<^verbatim>\<open>url\<close> set
  last). It holds as well when \<open>s\<close> is of type \<^verbatim>\<open>xyz\<close> with a local-file URL, the
  decoded URL is a local-file URL too, the resolver gives the file path of the URL back
  and \<open>s\<close> is in the form that the encoder prints (its parameters with \<^verbatim>\<open>url\<close> set
  last, to the URL made from the file path). For an \<^verbatim>\<open>xyz\<close> source that is not a local
  file and for any other type, both operations return their input unchanged.
\<close>

theorem storage_round_trip:
  assumes env: "env = referenceCollaborators files net json transform loader"
    and u: "dsUri = setEncodedUri env s"
    and p: "path = param env dsUri ''url''"
  shows "(param env dsUri ''type'' = ''mbtiles'' \<and>
          writePath ctx (readPath ctx path) = path \<and>
          encodedUri env (setParam env (removeParam env dsUri ''url'') ''url'' path) = s \<longrightarrow>
            encodedSource env ctx (decodedSource env ctx s) = s) \<and>
         (param env dsUri ''type'' = ''xyz'' \<and> urlIsLocalFile env path \<and>
          urlIsLocalFile env (urlFromLocalFile env (readPath ctx (urlToLocalFile env path))) \<and>
          writePath ctx (readPath ctx (urlToLocalFile env path)) = urlToLocalFile env path \<and>
          encodedUri env (setParam env (removeParam env dsUri ''url'') ''url''
             (urlFromLocalFile env (urlToLocalFile env path))) = s \<longrightarrow>
            encodedSource env ctx (decodedSource env ctx s) = s) \<and>
         (param env dsUri ''type'' = ''xyz'' \<and> \<not> urlIsLocalFile env path \<longrightarrow>
            encodedSource env ctx s = s \<and> decodedSource env ctx s = s) \<and>
         (param env dsUri ''type'' \<noteq> ''xyz'' \<and> param env dsUri ''type'' \<noteq> ''mbtiles'' \<longrightarrow>
            encodedSource env ctx s = s \<and> decodedSource env ctx s = s)"
proof -
  have ops: "setEncodedUri env = kvParse" "encodedUri env = kvPrint" "param env = kvParam"
    "removeParam env = kvRemoveParam" "setParam env = kvSetParam"
    "urlIsLocalFile env = fileUrlIsLocalFile" "urlToLocalFile env = fileUrlToLocalFile"
    "urlFromLocalFile env = fileUrlFromLocalFile"
    by (simp_all add: env referenceCollaborators_def)
  let ?u = "kvParse s"
  let ?p = "kvParam ?u ''url''"
  have up: "dsUri = ?u" "path = ?p" using u p by (simp_all add: ops)
  show ?thesis
  proof (intro conjI impI)
    assume h: "param env dsUri ''type'' = ''mbtiles'' \<and>
          writePath ctx (readPath ctx path) = path \<and>
          encodedUri env (setParam env (removeParam env dsUri ''url'') ''url'' path) = s"
    let ?X = "kvSetParam (kvRemoveParam ?u ''url'') ''url'' (readPath ctx ?p)"
    have t: "kvParam ?u ''type'' = ''mbtiles''" using h by (simp add: ops up)
    have d: "decodedSource env ctx s = kvPrint ?X"
      by (simp add: decodedSource_def Let_def ops t)
    have "encodedSource env ctx (kvPrint ?X) =
            kvPrint (kvSetParam (kvRemoveParam ?X ''url'') ''url''
              (writePath ctx (kvParam ?X ''url'')))"
      by (simp add: encodedSource_def Let_def ops parse_print kvParam_replaced t)
    also have "\<dots> = s"
      using h by (simp add: kvParam_replaced kvRemoveParam_replaced ops up)
    finally show "encodedSource env ctx (decodedSource env ctx s) = s" by (simp add: d)
  next
    assume h: "param env dsUri ''type'' = ''xyz'' \<and> urlIsLocalFile env path \<and>
          urlIsLocalFile env (urlFromLocalFile env (readPath ctx (urlToLocalFile env path))) \<and>
          writePath ctx (readPath ctx (urlToLocalFile env path)) = urlToLocalFile env path \<and>
          encodedUri env (setParam env (removeParam env dsUri ''url'') ''url''
             (urlFromLocalFile env (urlToLocalFile env path))) = s"
    let ?a = "readPath ctx (fileUrlToLocalFile ?p)"
    let ?X = "kvSetParam (kvRemoveParam ?u ''url'') ''url'' (fileUrlFromLocalFile ?a)"
    have t: "kvParam ?u ''type'' = ''xyz''" and loc: "fileUrlIsLocalFile ?p"
      and loc': "fileUrlIsLocalFile (fileUrlFromLocalFile ?a)"
      using h by (simp_all add: ops up)
    have d: "decodedSource env ctx s = kvPrint ?X"
      by (simp add: decodedSource_def Let_def ops t loc)
    have "encodedSource env ctx (kvPrint ?X) =
            kvPrint (kvSetParam (kvRemoveParam ?X ''url'') ''url''
              (fileUrlFromLocalFile (writePath ctx (fileUrlToLocalFile (kvParam ?X ''url'')))))"
      by (simp add: encodedSource_def Let_def ops parse_print kvParam_replaced t loc')
    also have "\<dots> = s"
      using h by (simp add: kvParam_replaced kvRemoveParam_replaced fileUrl_roundtrip ops up)
    finally show "encodedSource env ctx (decodedSource env ctx s) = s" by (simp add: d)
  next
    assume "param env dsUri ''type'' = ''xyz'' \<and> \<not> urlIsLocalFile env path"
    then show "encodedSource env ctx s = s" "decodedSource env ctx s = s"
      using u p by (simp_all add: encodedSource_def decodedSource_def Let_def)
  next
    assume "param env dsUri ''type'' \<noteq> ''xyz'' \<and> param env dsUri ''type'' \<noteq> ''mbtiles''"
    then show "encodedSource env ctx s = s" "decodedSource env ctx s = s"
      using u p by (simp_all add: encodedSource_def decodedSource_def Let_def)
  qed
qed

theorem storage_round_trip_witness:
  "encodedSource offlineCollaborators (projectContext ''/project'')
     (decodedSource offlineCollaborators (projectContext ''/project'')
        ''type=mbtiles&url=./tiles.mbtiles'')
     = ''type=mbtiles&url=./tiles.mbtiles'' \<and>
   encodedSource offlineCollaborators (projectContext ''/project'')
     (decodedSource offlineCollaborators (projectContext ''/project'')
        ''type=xyz&url=file:./tiles/{z}/{x}/{y}.pbf'')
     = ''type=xyz&url=file:./tiles/{z}/{x}/{y}.pbf'' \<and>
   encodedSource offlineCollaborators (projectContext ''/project'')
     ''type=xyz&url=http://tiles.example/{z}/{x}/{y}.pbf''
     = ''type=xyz&url=http://tiles.example/{z}/{x}/{y}.pbf'' \<and>
   decodedSource offlineCollaborators (projectContext ''/project'') ''type=wms&url=./a''
     = ''type=wms&url=./a''"
proof -
  let ?env = offlineCollaborators
  let ?ctx = "projectContext ''/project''"
  let ?m = "''type=mbtiles&url=./tiles.mbtiles''"
  let ?f = "''type=xyz&url=file:./tiles/{z}/{x}/{y}.pbf''"
  let ?h = "''type=xyz&url=http://tiles.example/{z}/{x}/{y}.pbf''"
  let ?w = "''type=wms&url=./a''"
  have m: "param ?env (setEncodedUri ?env ?m) ''type'' = ''mbtiles'' \<and>
      writePath ?ctx (readPath ?ctx (param ?env (setEncodedUri ?env ?m) ''url''))
        = param ?env (setEncodedUri ?env ?m) ''url'' \<and>
      encodedUri ?env (setParam ?env (removeParam ?env (setEncodedUri ?env ?m) ''url'') ''url''
          (param ?env (setEncodedUri ?env ?m) ''url'')) = ?m"
    by (simp add: projectContext_def reference_defs)
  have f: "param ?env (setEncodedUri ?env ?f) ''type'' = ''xyz'' \<and>
      urlIsLocalFile ?env (param ?env (setEncodedUri ?env ?f) ''url'') \<and>
      urlIsLocalFile ?env (urlFromLocalFile ?env
        (readPath ?ctx (urlToLocalFile ?env (param ?env (setEncodedUri ?env ?f) ''url'')))) \<and>
      writePath ?ctx (readPath ?ctx (urlToLocalFile ?env (param ?env (setEncodedUri ?env ?f) ''url'')))
        = urlToLocalFile ?env (param ?env (setEncodedUri ?env ?f) ''url'') \<and>
      encodedUri ?env (setParam ?env (removeParam ?env (setEncodedUri ?env ?f) ''url'') ''url''
          (urlFromLocalFile ?env
             (urlToLocalFile ?env (param ?env (setEncodedUri ?env ?f) ''url'')))) = ?f"
    by (simp add: projectContext_def reference_defs
          fileUrlIsLocalFile_def fileUrlToLocalFile_def fileUrlFromLocalFile_def)
  have h: "param ?env (setEncodedUri ?env ?h) ''type'' = ''xyz'' \<and>
      \<not> urlIsLocalFile ?env (param ?env (setEncodedUri ?env ?h) ''url'')"
    by (simp add: reference_defs fileUrlIsLocalFile_def)
  have w: "param ?env (setEncodedUri ?env ?w) ''type'' \<noteq> ''xyz'' \<and>
      param ?env (setEncodedUri ?env ?w) ''type'' \<noteq> ''mbtiles''"
    by (simp add: reference_defs)
  note rt = storage_round_trip [OF offlineCollaborators_def refl refl]
  have "encodedSource ?env ?ctx (decodedSource ?env ?ctx ?m) = ?m"
    by (rule rt [of ?m ?ctx, THEN conjunct1, THEN mp, OF m])
  moreover have "encodedSource ?env ?ctx (decodedSource ?env ?ctx ?f) = ?f"
    by (rule rt [of ?f ?ctx, THEN conjunct2, THEN conjunct1, THEN mp, OF f])
  moreover have "encodedSource ?env ?ctx ?h = ?h"
    by (rule rt [of ?h ?ctx, THEN conjunct2, THEN conjunct2, THEN conjunct1, THEN mp,
          OF h, THEN conjunct1])
  moreover have "decodedSource ?env ?ctx ?w = ?w"
    by (rule rt [of ?w ?ctx, THEN conjunct2, THEN conjunct2, THEN conjunct2, THEN mp,
          OF w, THEN conjunct2])
  ultimately show ?thesis by (intro conjI)
qed

subsection \<open>C2: zoom range of a plain XYZ source\<close>

text \<open>
  C2: for a connection string of type \<^verbatim>\<open>xyz\<close> whose \<^verbatim>\<open>serviceType\<close> is not
  \<^verbatim>\<open>arcgis\<close> and whose URL template passes \<^verbatim>\<open>checkXYZUrlTemplate\<close>, resolution
  succeeds; the minimum zoom is the integer value of the \<^verbatim>\<open>zmin\<close> parameter when the
  parameter is present and 0 when it is absent, and the maximum zoom is the integer value
  of the \<^verbatim>\<open>zmax\<close> parameter when present and 14 when absent. The integer value of a
  parameter is what \<^verbatim>\<open>QString::toInt()\<close> returns for its text.
\<close>

theorem plain_xyz_zoom_range:
  assumes "dsUri = setEncodedUri env (mDataSource l)"
    and "param env dsUri ''type'' = ''xyz''"
    and "param env dsUri ''serviceType'' \<noteq> ''arcgis''"
    and "checkXYZUrlTemplate (param env dsUri ''url'')"
  shows "fst (loadDataSource env l) \<and>
         mSourceMinZoom (snd (loadDataSource env l)) =
           (if hasParam env dsUri ''zmin'' then toIntOrZero env (param env dsUri ''zmin'') else 0) \<and>
         mSourceMaxZoom (snd (loadDataSource env l)) =
           (if hasParam env dsUri ''zmax'' then toIntOrZero env (param env dsUri ''zmax'') else 14)"
  using assms
  by (simp add: loadDataSource_def Let_def layer_defs)

theorem plain_xyz_zoom_range_witness:
  "fst (loadDataSource offlineCollaborators (xyzLayer ''&zmin=3&zmax=9'')) \<and>
   mSourceMinZoom (snd (loadDataSource offlineCollaborators (xyzLayer ''&zmin=3&zmax=9''))) = 3 \<and>
   mSourceMaxZoom (snd (loadDataSource offlineCollaborators (xyzLayer ''&zmin=3&zmax=9''))) = 9 \<and>
   fst (loadDataSource offlineCollaborators (xyzLayer [])) \<and>
   mSourceMinZoom (snd (loadDataSource offlineCollaborators (xyzLayer []))) = 0 \<and>
   mSourceMaxZoom (snd (loadDataSource offlineCollaborators (xyzLayer []))) = 14"
proof -
  let ?env = offlineCollaborators
  let ?a = "setEncodedUri ?env (mDataSource (xyzLayer ''&zmin=3&zmax=9''))"
  let ?b = "setEncodedUri ?env (mDataSource (xyzLayer []))"
  have a: "param ?env ?a ''type'' = ''xyz''" "param ?env ?a ''serviceType'' \<noteq> ''arcgis''"
    "checkXYZUrlTemplate (param ?env ?a ''url'')"
    "hasParam ?env ?a ''zmin''" "toIntOrZero ?env (param ?env ?a ''zmin'') = 3"
    "hasParam ?env ?a ''zmax''" "toIntOrZero ?env (param ?env ?a ''zmax'') = 9"
    by (simp_all add: xyzLayer_def reference_defs)
  have b: "param ?env ?b ''type'' = ''xyz''" "param ?env ?b ''serviceType'' \<noteq> ''arcgis''"
    "checkXYZUrlTemplate (param ?env ?b ''url'')"
    "\<not> hasParam ?env ?b ''zmin''" "\<not> hasParam ?env ?b ''zmax''"
    by (simp_all add: xyzLayer_def reference_defs)
  show ?thesis
    using plain_xyz_zoom_range [OF refl a(1,2,3)] plain_xyz_zoom_range [OF refl b(1,2,3)]
      a(4-7) b(4,5)
    by simp
qed

subsection \<open>C3: order of the zoom bounds\<close>

text \<open>
  C3 as stated: after every successful resolution the minimum zoom is at most the
  maximum zoom, for any \<^verbatim>\<open>zmin\<close> and \<^verbatim>\<open>zmax\<close> values. It fails: the values are
  stored as given, and \<^verbatim>\<open>zmin=5&zmax=3\<close> resolves to the range from 5 to 3.
\<close>

theorem zoom_bounds_order_counterexample:
  "fst (loadDataSource offlineCollaborators (xyzLayer ''&zmin=5&zmax=3'')) \<and>
   mSourceMinZoom (snd (loadDataSource offlineCollaborators (xyzLayer ''&zmin=5&zmax=3''))) = 5 \<and>
   mSourceMaxZoom (snd (loadDataSource offlineCollaborators (xyzLayer ''&zmin=5&zmax=3''))) = 3 \<and>
   \<not> mSourceMinZoom (snd (loadDataSource offlineCollaborators (xyzLayer ''&zmin=5&zmax=3'')))
       \<le> mSourceMaxZoom (snd (loadDataSource offlineCollaborators (xyzLayer ''&zmin=5&zmax=3'')))"
  by (simp add: loadDataSource_def xyzLayer_def reference_defs layer_defs Let_def)

text \<open>
  C3, amended: after a successful resolution the minimum zoom is at most the maximum
  zoom whenever the values that the source supplies are in that order: for a plain
  \<^verbatim>\<open>xyz\<close> source, the value of \<^verbatim>\<open>zmin\<close> (0 when absent) and the value of \<^verbatim>\<open>zmax\<close>
  (14 when absent); for an ArcGIS service, 0 and the \<^verbatim>\<open>maxzoom\<close> of the service
  document; for an \<^verbatim>\<open>mbtiles\<close> archive, the \<^verbatim>\<open>minzoom\<close> and \<^verbatim>\<open>maxzoom\<close> metadata
  values, each replaced by the bound the layer had before when it does not parse.
\<close>

theorem zoom_bounds_order:
  assumes "dsUri = setEncodedUri env (mDataSource l)"
    and "url = param env dsUri ''url''"
    and ok: "fst (loadDataSource env l)"
    and xyz: "param env dsUri ''type'' = ''xyz'' \<Longrightarrow> param env dsUri ''serviceType'' \<noteq> ''arcgis'' \<Longrightarrow>
       (if hasParam env dsUri ''zmin'' then toIntOrZero env (param env dsUri ''zmin'') else 0)
         \<le> (if hasParam env dsUri ''zmax'' then toIntOrZero env (param env dsUri ''zmax'') else 14)"
    and arcgis: "\<And>raw doc. param env dsUri ''type'' = ''xyz'' \<Longrightarrow>
       param env dsUri ''serviceType'' = ''arcgis'' \<Longrightarrow>
       networkGet env url = NoError raw \<Longrightarrow> fromJson env raw = Some doc \<Longrightarrow>
       0 \<le> variantToInt env (mapValue (toVariantMap doc) ''maxzoom'')"
    and mbtiles: "\<And>reader. param env dsUri ''type'' = ''mbtiles'' \<Longrightarrow>
       mbTilesOpen env url = Some reader \<Longrightarrow>
       (case toInt env (metadataValue reader ''minzoom'') of
          Some n \<Rightarrow> n | None \<Rightarrow> mSourceMinZoom l)
         \<le> (case toInt env (metadataValue reader ''maxzoom'') of
               Some n \<Rightarrow> n | None \<Rightarrow> mSourceMaxZoom l)"
  shows "mSourceMinZoom (snd (loadDataSource env l)) \<le> mSourceMaxZoom (snd (loadDataSource env l))"
proof -
  let ?l2 = "l\<lparr>mSourceType := param env dsUri ''type'', mSourcePath := url\<rparr>"
  consider (a) "param env dsUri ''type'' = ''xyz''" "param env dsUri ''serviceType'' = ''arcgis''"
    | (x) "param env dsUri ''type'' = ''xyz''" "param env dsUri ''serviceType'' \<noteq> ''arcgis''"
    | (m) "param env dsUri ''type'' = ''mbtiles''"
    | (o) "param env dsUri ''type'' \<noteq> ''xyz''" "param env dsUri ''type'' \<noteq> ''mbtiles''"
    by blast
  then show ?thesis
  proof cases
    case a
    obtain b l3 where s: "setupArcgisVectorTileServiceConnection env url ?l2 = (b, l3)"
      by (cases "setupArcgisVectorTileServiceConnection env url ?l2")
    have load: "loadDataSource env l = (if \<not> b then (False, l3) else (True, setCrs ''EPSG:3857'' l3))"
      using a assms(1,2) s by (simp add: loadDataSource_def Let_def)
    with ok have b: b by (simp split: if_splits)
    then have "fst (setupArcgisVectorTileServiceConnection env url ?l2)" using s by simp
    from setup_arcgis_zooms [OF this] s obtain raw doc where
      "networkGet env url = NoError raw" "fromJson env raw = Some doc"
      "mSourceMinZoom l3 = 0"
      "mSourceMaxZoom l3 = variantToInt env (mapValue (toVariantMap doc) ''maxzoom'')"
      by auto
    with arcgis [OF a] show ?thesis by (simp add: load b setCrs_def)
  next
    case x
    with ok xyz assms(1,2) show ?thesis
      by (simp add: loadDataSource_def Let_def layer_defs split: if_splits)
  next
    case m
    with ok mbtiles assms(1,2) show ?thesis
      by (auto simp: loadDataSource_def Let_def layer_defs split: if_splits option.splits)
  next
    case o
    with ok assms(1,2) show ?thesis by (simp add: loadDataSource_def Let_def)
  qed
qed

theorem zoom_bounds_order_witness:
  "fst (loadDataSource offlineCollaborators (xyzLayer ''&zmin=3&zmax=9'')) \<and>
   mSourceMinZoom (snd (loadDataSource offlineCollaborators (xyzLayer ''&zmin=3&zmax=9'')))
     \<le> mSourceMaxZoom (snd (loadDataSource offlineCollaborators (xyzLayer ''&zmin=3&zmax=9''))) \<and>
   fst (loadDataSource (serviceCollaborators (NoError serviceDocumentText) (Some serviceDocument))
          serviceLayer) \<and>
   mSourceMinZoom (snd (loadDataSource
       (serviceCollaborators (NoError serviceDocumentText) (Some serviceDocument)) serviceLayer))
     \<le> mSourceMaxZoom (snd (loadDataSource
       (serviceCollaborators (NoError serviceDocumentText) (Some serviceDocument)) serviceLayer)) \<and>
   fst (loadDataSource
          (archiveCollaborators [(''format'', ''pbf''), (''minzoom'', ''2''), (''maxzoom'', ''10'')])
          archiveLayer) \<and>
   mSourceMinZoom (snd (loadDataSource
       (archiveCollaborators [(''format'', ''pbf''), (''minzoom'', ''2''), (''maxzoom'', ''10'')])
       archiveLayer))
     \<le> mSourceMaxZoom (snd (loadDataSource
       (archiveCollaborators [(''format'', ''pbf''), (''minzoom'', ''2''), (''maxzoom'', ''10'')])
       archiveLayer))"
proof -
  let ?x = "xyzLayer ''&zmin=3&zmax=9''"
  let ?senv = "serviceCollaborators (NoError serviceDocumentText) (Some serviceDocument)"
  let ?aenv = "archiveCollaborators [(''format'', ''pbf''), (''minzoom'', ''2''), (''maxzoom'', ''10'')]"
  have okx: "fst (loadDataSource offlineCollaborators ?x)"
    by (simp add: loadDataSource_def xyzLayer_def reference_defs layer_defs Let_def)
  have hx: "(if hasParam offlineCollaborators (setEncodedUri offlineCollaborators (mDataSource ?x)) ''zmin''
       then toIntOrZero offlineCollaborators
              (param offlineCollaborators (setEncodedUri offlineCollaborators (mDataSource ?x)) ''zmin'')
       else 0)
      \<le> (if hasParam offlineCollaborators (setEncodedUri offlineCollaborators (mDataSource ?x)) ''zmax''
       then toIntOrZero offlineCollaborators
              (param offlineCollaborators (setEncodedUri offlineCollaborators (mDataSource ?x)) ''zmax'')
       else 14)"
    by (simp add: xyzLayer_def reference_defs)
  have tx: "param offlineCollaborators (setEncodedUri offlineCollaborators (mDataSource ?x)) ''type''
      \<noteq> ''mbtiles''"
    "param offlineCollaborators (setEncodedUri offlineCollaborators (mDataSource ?x)) ''serviceType''
      \<noteq> ''arcgis''"
    by (simp_all add: xyzLayer_def reference_defs)
  have x: "mSourceMinZoom (snd (loadDataSource offlineCollaborators ?x))
      \<le> mSourceMaxZoom (snd (loadDataSource offlineCollaborators ?x))"
    using tx by (intro zoom_bounds_order [OF refl refl okx hx]) simp_all
  have oks: "fst (loadDataSource ?senv serviceLayer)"
    by (simp add: loadDataSource_def setupArcgisVectorTileServiceConnection_def serviceLayer_def
          serviceCollaborators_def serviceDocument_def mapValue_def listValue_def
          reference_defs layer_defs Let_def)
  have ts: "param ?senv (setEncodedUri ?senv (mDataSource serviceLayer)) ''type'' \<noteq> ''mbtiles''"
    "param ?senv (setEncodedUri ?senv (mDataSource serviceLayer)) ''serviceType'' = ''arcgis''"
    "param ?senv (setEncodedUri ?senv (mDataSource serviceLayer)) ''url''
       = ''https://server.example/VectorTileServer''"
    by (simp_all add: serviceLayer_def serviceCollaborators_def reference_defs)
  have ds: "\<And>raw doc. networkGet ?senv ''https://server.example/VectorTileServer'' = NoError raw \<Longrightarrow>
       fromJson ?senv raw = Some doc \<Longrightarrow>
       0 \<le> variantToInt ?senv (mapValue (toVariantMap doc) ''maxzoom'')"
    by (auto simp: serviceCollaborators_def referenceCollaborators_def serviceDocument_def
          mapValue_def)
  have s: "mSourceMinZoom (snd (loadDataSource ?senv serviceLayer))
      \<le> mSourceMaxZoom (snd (loadDataSource ?senv serviceLayer))"
    using ts ds by (intro zoom_bounds_order [OF refl refl oks]) simp_all
  have oka: "fst (loadDataSource ?aenv archiveLayer)"
    by (simp add: loadDataSource_def archiveLayer_def archiveCollaborators_def
          reference_defs layer_defs Let_def)
  have ta: "param ?aenv (setEncodedUri ?aenv (mDataSource archiveLayer)) ''type'' \<noteq> ''xyz''"
    "param ?aenv (setEncodedUri ?aenv (mDataSource archiveLayer)) ''url'' = ''/data/world.mbtiles''"
    by (simp_all add: archiveLayer_def archiveCollaborators_def reference_defs)
  have da: "\<And>reader. mbTilesOpen ?aenv ''/data/world.mbtiles'' = Some reader \<Longrightarrow>
       (case toInt ?aenv (metadataValue reader ''minzoom'') of
          Some n \<Rightarrow> n | None \<Rightarrow> mSourceMinZoom archiveLayer)
         \<le> (case toInt ?aenv (metadataValue reader ''maxzoom'') of
               Some n \<Rightarrow> n | None \<Rightarrow> mSourceMaxZoom archiveLayer)"
    by (auto simp: archiveCollaborators_def reference_defs)
  have a: "mSourceMinZoom (snd (loadDataSource ?aenv archiveLayer))
      \<le> mSourceMaxZoom (snd (loadDataSource ?aenv archiveLayer))"
    using ta da by (intro zoom_bounds_order [OF refl refl oka]) simp_all
  show ?thesis using okx x oks s oka a by (intro conjI)
qed

subsection \<open>C4: an archive that is not in pbf format\<close>

text \<open>
  C4: for a connection string of type \<^verbatim>\<open>mbtiles\<close> whose archive opens and whose
  \<^verbatim>\<open>format\<close> metadata value is not \<^verbatim>\<open>pbf\<close>, resolution fails, and a layer constructed
  from the string is marked invalid.
\<close>

theorem mbtiles_not_pbf_fails:
  assumes "param env (setEncodedUri env uri) ''type'' = ''mbtiles''"
    and "mbTilesOpen env (param env (setEncodedUri env uri) ''url'') = Some reader"
    and "metadataValue reader ''format'' \<noteq> ''pbf''"
  shows "\<not> fst (loadDataSource env (l\<lparr>mDataSource := uri\<rparr>)) \<and>
         \<not> mValid (QgsVectorTileLayer env styles l uri)"
  using assms
  by (simp add: QgsVectorTileLayer_def loadDataSource_def Let_def layer_defs split: prod.splits)

theorem mbtiles_not_pbf_fails_witness:
  "param (archiveCollaborators [(''format'', ''png'')])
     (setEncodedUri (archiveCollaborators [(''format'', ''png'')])
        ''type=mbtiles&url=/data/world.mbtiles'') ''type'' = ''mbtiles'' \<and>
   \<not> fst (loadDataSource (archiveCollaborators [(''format'', ''png'')])
            (newLayer\<lparr>mDataSource := ''type=mbtiles&url=/data/world.mbtiles''\<rparr>)) \<and>
   \<not> mValid (QgsVectorTileLayer (archiveCollaborators [(''format'', ''png'')]) () newLayer
              ''type=mbtiles&url=/data/world.mbtiles'')"
proof -
  let ?env = "archiveCollaborators [(''format'', ''png'')]"
  let ?uri = "''type=mbtiles&url=/data/world.mbtiles''"
  let ?reader = "\<lparr>metadataValue = kvParam [(''format'', ''png'')],
        mbExtent = \<lparr>xMinimum = - 180, yMinimum = - 85, xMaximum = 180, yMaximum = 85\<rparr>\<rparr>"
  have t: "param ?env (setEncodedUri ?env ?uri) ''type'' = ''mbtiles''"
    by (simp add: archiveCollaborators_def reference_defs)
  have r: "mbTilesOpen ?env (param ?env (setEncodedUri ?env ?uri) ''url'') = Some ?reader"
    by (simp add: archiveCollaborators_def reference_defs)
  have f: "metadataValue ?reader ''format'' \<noteq> ''pbf''"
    by (simp add: kvParam_def)
  show ?thesis
    using mbtiles_not_pbf_fails [OF t r f, of newLayer "()"] t by (intro conjI) simp_all
qed

subsection \<open>C5: an ArcGIS vector tile service\<close>

text \<open>
  C5: for a connection string of type \<^verbatim>\<open>xyz\<close> with \<^verbatim>\<open>serviceType=arcgis\<close> and service
  URI \<open>uri\<close>: when the fetch succeeds and the content parses to a document with the
  entries \<^verbatim>\<open>"tiles": ["{z}/{x}/{y}.pbf"]\<close> and \<^verbatim>\<open>"maxzoom": 16\<close> and no \<^verbatim>\<open>error\<close>
  key, resolution succeeds with minimum zoom 0, maximum zoom 16 and the source path
  \<open>uri\<close> followed by \<^verbatim>\<open>/{z}/{x}/{y}.pbf\<close>; resolution fails when the fetch fails, when
  the content does not parse, and when the document has an \<^verbatim>\<open>error\<close> key.
\<close>

theorem arcgis_resolution:
  assumes "dsUri = setEncodedUri env (mDataSource l)"
    and "param env dsUri ''type'' = ''xyz''"
    and "param env dsUri ''serviceType'' = ''arcgis''"
    and "uri = param env dsUri ''url''"
  shows "(networkGet env uri = NoError raw \<and> fromJson env raw = Some doc \<and>
          toVariantMap doc ''error'' = None \<and>
          toVariantMap doc ''tiles'' = Some (VList (VString ''{z}/{x}/{y}.pbf'' # others)) \<and>
          toVariantMap doc ''maxzoom'' = Some (VNum 16) \<longrightarrow>
            fst (loadDataSource env l) \<and>
            mSourceMinZoom (snd (loadDataSource env l)) = 0 \<and>
            mSourceMaxZoom (snd (loadDataSource env l)) = 16 \<and>
            mSourcePath (snd (loadDataSource env l)) = uri @ ''/{z}/{x}/{y}.pbf'') \<and>
         (networkGet env uri = NetworkError \<or> networkGet env uri = TimeoutError \<or>
          networkGet env uri = ServerExceptionError \<longrightarrow> \<not> fst (loadDataSource env l)) \<and>
         (networkGet env uri = NoError raw \<and> fromJson env raw = None \<longrightarrow>
            \<not> fst (loadDataSource env l)) \<and>
         (networkGet env uri = NoError raw \<and> fromJson env raw = Some doc \<and>
          toVariantMap doc ''error'' \<noteq> None \<longrightarrow> \<not> fst (loadDataSource env l))"
proof -
  let ?l2 = "l\<lparr>mSourceType := ''xyz'', mSourcePath := uri\<rparr>"
  have load: "loadDataSource env l =
     (case setupArcgisVectorTileServiceConnection env uri ?l2 of
        (ok, l3) \<Rightarrow> if \<not> ok then (False, l3) else (True, setCrs ''EPSG:3857'' l3))"
    using assms load_arcgis [of env l] by simp
  have fails: "\<not> fst (setupArcgisVectorTileServiceConnection env uri ?l2) \<Longrightarrow>
      \<not> fst (loadDataSource env l)"
    by (cases "setupArcgisVectorTileServiceConnection env uri ?l2") (simp add: load)
  show ?thesis
  proof (intro conjI impI)
    assume h: "networkGet env uri = NoError raw \<and> fromJson env raw = Some doc \<and>
          toVariantMap doc ''error'' = None \<and>
          toVariantMap doc ''tiles'' = Some (VList (VString ''{z}/{x}/{y}.pbf'' # others)) \<and>
          toVariantMap doc ''maxzoom'' = Some (VNum 16)"
    then have s: "setupArcgisVectorTileServiceConnection env uri ?l2 =
           (True, ?l2\<lparr>mArcgisLayerConfiguration :=
                        (toVariantMap doc)(''serviceUri'' \<mapsto> VString uri),
                    mSourcePath := uri @ ''/{z}/{x}/{y}.pbf'',
                    mSourceMinZoom := 0, mSourceMaxZoom := 16,
                    mExtent := webMercatorExtent\<rparr>)"
      using setup_arcgis_success [of env uri raw doc others ?l2] by blast
    show "fst (loadDataSource env l)" by (simp add: load s)
    show "mSourceMinZoom (snd (loadDataSource env l)) = 0" by (simp add: load s setCrs_def)
    show "mSourceMaxZoom (snd (loadDataSource env l)) = 16" by (simp add: load s setCrs_def)
    show "mSourcePath (snd (loadDataSource env l)) = uri @ ''/{z}/{x}/{y}.pbf''"
      by (simp add: load s setCrs_def)
  next
    assume "networkGet env uri = NetworkError \<or> networkGet env uri = TimeoutError \<or>
          networkGet env uri = ServerExceptionError"
    then show "\<not> fst (loadDataSource env l)"
      using setup_arcgis_failure [of env uri raw doc ?l2] fails by blast
  next
    assume "networkGet env uri = NoError raw \<and> fromJson env raw = None"
    then show "\<not> fst (loadDataSource env l)"
      using setup_arcgis_failure [of env uri raw doc ?l2] fails by blast
  next
    assume "networkGet env uri = NoError raw \<and> fromJson env raw = Some doc \<and>
          toVariantMap doc ''error'' \<noteq> None"
    then show "\<not> fst (loadDataSource env l)"
      using setup_arcgis_failure [of env uri raw doc ?l2] fails by blast
  qed
qed

theorem arcgis_resolution_witness:
  "fst (loadDataSource (serviceCollaborators (NoError serviceDocumentText) (Some serviceDocument))
          serviceLayer) \<and>
   mSourceMinZoom (snd (loadDataSource
      (serviceCollaborators (NoError serviceDocumentText) (Some serviceDocument)) serviceLayer)) = 0 \<and>
   mSourceMaxZoom (snd (loadDataSource
      (serviceCollaborators (NoError serviceDocumentText) (Some serviceDocument)) serviceLayer)) = 16 \<and>
   mSourcePath (snd (loadDataSource
      (serviceCollaborators (NoError serviceDocumentText) (Some serviceDocument)) serviceLayer))
     = ''https://server.example/VectorTileServer/{z}/{x}/{y}.pbf'' \<and>
   \<not> fst (loadDataSource (serviceCollaborators TimeoutError None) serviceLayer) \<and>
   \<not> fst (loadDataSource (serviceCollaborators (NoError ''<html>'') None) serviceLayer) \<and>
   \<not> fst (loadDataSource
            (serviceCollaborators (NoError ''{}'')
               (Some (DocObject [(''error'', VMap [(''code'', VNum 499)])])))
            serviceLayer)"
proof -
  let ?uri = "''https://server.example/VectorTileServer''"
  have params: "\<And>reply parsed.
      param (serviceCollaborators reply parsed)
        (setEncodedUri (serviceCollaborators reply parsed) (mDataSource serviceLayer)) ''type'' = ''xyz'' \<and>
      param (serviceCollaborators reply parsed)
        (setEncodedUri (serviceCollaborators reply parsed) (mDataSource serviceLayer)) ''serviceType''
        = ''arcgis'' \<and>
      ?uri = param (serviceCollaborators reply parsed)
        (setEncodedUri (serviceCollaborators reply parsed) (mDataSource serviceLayer)) ''url'' \<and>
      networkGet (serviceCollaborators reply parsed) ?uri = reply \<and>
      fromJson (serviceCollaborators reply parsed) = (\<lambda>raw. parsed)"
    by (simp add: serviceLayer_def serviceCollaborators_def reference_defs)
  note inst = arcgis_resolution [OF refl params [THEN conjunct1]
      params [THEN conjunct2, THEN conjunct1]
      params [THEN conjunct2, THEN conjunct2, THEN conjunct1]]
  have good: "toVariantMap serviceDocument ''error'' = None \<and>
      toVariantMap serviceDocument ''tiles'' = Some (VList (VString ''{z}/{x}/{y}.pbf'' # [])) \<and>
      toVariantMap serviceDocument ''maxzoom'' = Some (VNum 16)"
    by (simp add: serviceDocument_def)
  have bad: "toVariantMap (DocObject [(''error'', VMap [(''code'', VNum 499)])]) ''error'' \<noteq> None"
    by simp
  show ?thesis
    using inst [of "NoError serviceDocumentText" "Some serviceDocument" serviceDocumentText
        serviceDocument "[]"]
      inst [of TimeoutError None "[]" serviceDocument "[]"]
      inst [of "NoError ''<html>''" None "''<html>''" serviceDocument "[]"]
      inst [of "NoError ''{}''" "Some (DocObject [(''error'', VMap [(''code'', VNum 499)])])"
        "''{}''" "DocObject [(''error'', VMap [(''code'', VNum 499)])]" "[]"]
      good bad
    by (simp add: params)
qed

subsection \<open>C6: raw tiles\<close>

text \<open>
  C6: for every layer and every tile address, whatever its zoom level and whatever
  zoom range the layer has resolved, \<^verbatim>\<open>getRawTile\<close> returns the empty byte sequence
  when the tile loader returns an empty list and the payload of the first result
  otherwise, and it never fails: \<^verbatim>\<open>first()\<close>, which aborts on an empty list, is only
  reached with a list that is not empty.
\<close>

theorem raw_tile_never_fails:
  assumes "rawTiles = blockingFetchTileRawData env (mSourceType l) (mSourcePath l)
             (FromWebMercator (zoomLevel tileID))
             \<lparr>startColumn = column tileID, endColumn = column tileID,
              startRow = row tileID, endRow = row tileID\<rparr>
             (authConfigId env (setEncodedUri env (mDataSource l)))
             (param env (setEncodedUri env (mDataSource l)) ''referer'')"
  shows "(rawTiles = [] \<longrightarrow> getRawTile env l tileID = Inr []) \<and>
         (rawTiles \<noteq> [] \<longrightarrow> getRawTile env l tileID = Inr (tileData (hd rawTiles))) \<and>
         (\<exists>bytes. getRawTile env l tileID = Inr bytes)"
proof -
  have "getRawTile env l tileID =
          (if rawTiles = [] then Inr []
           else (case listFirst rawTiles of
                   Inl e \<Rightarrow> Inl e | Inr rawTile \<Rightarrow> Inr (tileData rawTile)))"
    using assms by (simp add: getRawTile_def Let_def)
  then show ?thesis
    by (cases rawTiles) (simp_all add: listFirst_def)
qed

theorem raw_tile_never_fails_witness:
  "mSourceMaxZoom (snd (loadDataSource tileCollaborators (xyzLayer []))) = 14 \<and>
   getRawTile tileCollaborators (snd (loadDataSource tileCollaborators (xyzLayer [])))
     \<lparr>column = 3, row = 5, zoomLevel = 4\<rparr> = Inr ''tile'' \<and>
   getRawTile tileCollaborators (snd (loadDataSource tileCollaborators (xyzLayer [])))
     \<lparr>column = 3, row = 5, zoomLevel = 20\<rparr> = Inr [] \<and>
   getRawTile tileCollaborators (snd (loadDataSource tileCollaborators (xyzLayer [])))
     \<lparr>column = 3, row = 5, zoomLevel = - 1\<rparr> = Inr []"
proof -
  let ?l = "snd (loadDataSource tileCollaborators (xyzLayer []))"
  let ?fetch = "\<lambda>t. blockingFetchTileRawData tileCollaborators (mSourceType ?l) (mSourcePath ?l)
             (FromWebMercator (zoomLevel t))
             \<lparr>startColumn = column t, endColumn = column t, startRow = row t, endRow = row t\<rparr>
             (authConfigId tileCollaborators (setEncodedUri tileCollaborators (mDataSource ?l)))
             (param tileCollaborators (setEncodedUri tileCollaborators (mDataSource ?l)) ''referer'')"
  have z: "mSourceMaxZoom ?l = 14"
    by (simp add: loadDataSource_def xyzLayer_def tileCollaborators_def reference_defs
          layer_defs Let_def)
  have inside: "?fetch \<lparr>column = 3, row = 5, zoomLevel = 4\<rparr> =
      [\<lparr>tileId = \<lparr>column = 3, row = 5, zoomLevel = 4\<rparr>, tileData = ''tile''\<rparr>]"
    by (simp add: tileCollaborators_def referenceCollaborators_def)
  have above: "?fetch \<lparr>column = 3, row = 5, zoomLevel = 20\<rparr> = []"
    by (simp add: tileCollaborators_def referenceCollaborators_def)
  have below: "?fetch \<lparr>column = 3, row = 5, zoomLevel = - 1\<rparr> = []"
    by (simp add: tileCollaborators_def referenceCollaborators_def)
  show ?thesis
    using z raw_tile_never_fails [OF inside [symmetric]] raw_tile_never_fails [OF above [symmetric]]
      raw_tile_never_fails [OF below [symmetric]]
    by simp
qed

subsection \<open>C7: unknown renderer and labeling types\<close>

text \<open>
  C7 as stated: an unrecognized renderer type makes every read of the symbology fail.
  It fails when the \<^verbatim>\<open>Symbology\<close> category is not among the categories read: the
  renderer type is then not looked at, and the read succeeds.
\<close>

theorem unknown_renderer_accepted_counterexample:
  "fst (readSymbology plainReaders (styledNode ''fancy'' ''basic'') [] {Labeling} newLayer)"
  by (simp add: readSymbology_def plainReaders_def styledNode_def firstChildElement_def
        attribute_def Let_def newLayer_def layer_defs)

text \<open>
  C7, amended: when the \<^verbatim>\<open>Symbology\<close> category is among the categories read, a renderer
  element whose type is not \<^verbatim>\<open>basic\<close> makes the read fail; when the \<^verbatim>\<open>Labeling\<close>
  category is among them and the renderer element does not make the read fail, a
  labeling element whose type is not \<^verbatim>\<open>basic\<close> is ignored: the read succeeds and the
  layer ends up with no labeling.
\<close>

theorem symbology_unknown_types:
  assumes "firstChildElement node ''renderer'' = Some elemRenderer"
  shows "(Symbology \<in> categories \<and> attribute elemRenderer ''type'' \<noteq> ''basic'' \<longrightarrow>
            \<not> fst (readSymbology rd node msg categories l)) \<and>
         ((Symbology \<in> categories \<longrightarrow> attribute elemRenderer ''type'' = ''basic'') \<and>
          Labeling \<in> categories \<and>
          firstChildElement node ''labeling'' = Some elemLabeling \<and>
          attribute elemLabeling ''type'' \<noteq> ''basic'' \<longrightarrow>
            fst (readSymbology rd node msg categories l) \<and>
            labeling (snd (snd (readSymbology rd node msg categories l))) = None)"
  using assms
  by (auto simp: readSymbology_def Let_def labeling_def setLabeling_def setRenderer_def)

theorem symbology_unknown_types_witness:
  "\<not> fst (readSymbology plainReaders (styledNode ''fancy'' ''basic'') []
            {Symbology, Labeling} newLayer) \<and>
   fst (readSymbology plainReaders (styledNode ''basic'' ''fancy'') []
          {Symbology, Labeling} (newLayer\<lparr>mLabeling := Some (BasicLabeling ())\<rparr>)) \<and>
   labeling (snd (snd (readSymbology plainReaders (styledNode ''basic'' ''fancy'') []
          {Symbology, Labeling} (newLayer\<lparr>mLabeling := Some (BasicLabeling ())\<rparr>)))) = None"
proof -
  have r1: "firstChildElement (styledNode ''fancy'' ''basic'') ''renderer'' =
              Some (Element ''renderer'' [(''type'', ''fancy'')] [])"
    by (simp add: styledNode_def firstChildElement_def)
  have r2: "firstChildElement (styledNode ''basic'' ''fancy'') ''renderer'' =
              Some (Element ''renderer'' [(''type'', ''basic'')] [])"
    by (simp add: styledNode_def firstChildElement_def)
  have l2: "firstChildElement (styledNode ''basic'' ''fancy'') ''labeling'' =
              Some (Element ''labeling'' [(''type'', ''fancy'')] [])"
    by (simp add: styledNode_def firstChildElement_def)
  show ?thesis
    using symbology_unknown_types [OF r1, where categories = "{Symbology, Labeling}"
        and rd = plainReaders and msg = "[]" and l = newLayer]
      symbology_unknown_types [OF r2, where categories = "{Symbology, Labeling}"
        and elemLabeling = "Element ''labeling'' [(''type'', ''fancy'')] []"
        and rd = plainReaders and msg = "[]"
        and l = "newLayer\<lparr>mLabeling := Some (BasicLabeling ())\<rparr>"] l2
    by (simp add: attribute_def)
qed

subsection \<open>C8: the coordinate reference system\<close>

text \<open>
  C8: whenever resolution succeeds, for a plain \<^verbatim>\<open>xyz\<close> source, an ArcGIS service or
  an \<^verbatim>\<open>mbtiles\<close> archive alike, the layer's coordinate reference system is
  \<^verbatim>\<open>EPSG:3857\<close> afterwards.
\<close>

theorem success_sets_web_mercator:
  "fst (loadDataSource env l) \<Longrightarrow> mCrs (snd (loadDataSource env l)) = ''EPSG:3857''"
  by (auto simp: loadDataSource_def Let_def setCrs_def setExtent_def
           split: if_splits prod.splits option.splits)

theorem success_sets_web_mercator_witness:
  "fst (loadDataSource offlineCollaborators (xyzLayer [])) \<and>
   mCrs (snd (loadDataSource offlineCollaborators (xyzLayer []))) = ''EPSG:3857'' \<and>
   fst (loadDataSource (serviceCollaborators (NoError serviceDocumentText) (Some serviceDocument))
          serviceLayer) \<and>
   mCrs (snd (loadDataSource
          (serviceCollaborators (NoError serviceDocumentText) (Some serviceDocument)) serviceLayer))
     = ''EPSG:3857'' \<and>
   fst (loadDataSource (archiveCollaborators [(''format'', ''pbf'')]) archiveLayer) \<and>
   mCrs (snd (loadDataSource (archiveCollaborators [(''format'', ''pbf'')]) archiveLayer))
     = ''EPSG:3857''"
proof -
  have x: "fst (loadDataSource offlineCollaborators (xyzLayer []))"
    by (simp add: loadDataSource_def xyzLayer_def reference_defs layer_defs Let_def)
  have s: "fst (loadDataSource
      (serviceCollaborators (NoError serviceDocumentText) (Some serviceDocument)) serviceLayer)"
    by (simp add: loadDataSource_def setupArcgisVectorTileServiceConnection_def serviceLayer_def
          serviceCollaborators_def serviceDocument_def mapValue_def listValue_def
          reference_defs layer_defs Let_def)
  have a: "fst (loadDataSource (archiveCollaborators [(''format'', ''pbf'')]) archiveLayer)"
    by (simp add: loadDataSource_def archiveLayer_def archiveCollaborators_def
          reference_defs layer_defs Let_def)
  show ?thesis
    using x s a success_sets_web_mercator [OF x] success_sets_web_mercator [OF s]
      success_sets_web_mercator [OF a]
    by (intro conjI)
qed

subsection \<open>C9: zoom range of an archive\<close>

text \<open>
  C9: for a connection string of type \<^verbatim>\<open>mbtiles\<close> whose archive opens and is in
  \<^verbatim>\<open>pbf\<close> format, resolution succeeds; the minimum zoom is the \<^verbatim>\<open>minzoom\<close> metadata
  value when that parses as an integer and the layer's previous minimum zoom otherwise,
  and the maximum zoom is the \<^verbatim>\<open>maxzoom\<close> metadata value when that parses and the
  layer's previous maximum zoom otherwise, each bound on its own.
\<close>

theorem mbtiles_zoom_from_metadata:
  assumes "param env (setEncodedUri env (mDataSource l)) ''type'' = ''mbtiles''"
    and "mbTilesOpen env (param env (setEncodedUri env (mDataSource l)) ''url'') = Some reader"
    and "metadataValue reader ''format'' = ''pbf''"
  shows "fst (loadDataSource env l) \<and>
         mSourceMinZoom (snd (loadDataSource env l)) =
           (case toInt env (metadataValue reader ''minzoom'') of
              Some n \<Rightarrow> n | None \<Rightarrow> mSourceMinZoom l) \<and>
         mSourceMaxZoom (snd (loadDataSource env l)) =
           (case toInt env (metadataValue reader ''maxzoom'') of
              Some n \<Rightarrow> n | None \<Rightarrow> mSourceMaxZoom l)"
  using assms
  by (simp add: loadDataSource_def Let_def layer_defs split: option.splits)

theorem mbtiles_zoom_from_metadata_witness:
  "fst (loadDataSource
          (archiveCollaborators [(''format'', ''pbf''), (''minzoom'', ''2''), (''maxzoom'', ''10'')])
          archiveLayer) \<and>
   mSourceMinZoom (snd (loadDataSource
       (archiveCollaborators [(''format'', ''pbf''), (''minzoom'', ''2''), (''maxzoom'', ''10'')])
       archiveLayer)) = 2 \<and>
   mSourceMaxZoom (snd (loadDataSource
       (archiveCollaborators [(''format'', ''pbf''), (''minzoom'', ''2''), (''maxzoom'', ''10'')])
       archiveLayer)) = 10 \<and>
   mSourceMinZoom (snd (loadDataSource
       (archiveCollaborators [(''format'', ''pbf''), (''minzoom'', ''low'')])
       (archiveLayer\<lparr>mSourceMinZoom := 4, mSourceMaxZoom := 12\<rparr>))) = 4 \<and>
   mSourceMaxZoom (snd (loadDataSource
       (archiveCollaborators [(''format'', ''pbf''), (''minzoom'', ''low'')])
       (archiveLayer\<lparr>mSourceMinZoom := 4, mSourceMaxZoom := 12\<rparr>))) = 12"
proof -
  let ?m1 = "[(''format'', ''pbf''), (''minzoom'', ''2''), (''maxzoom'', ''10'')]"
  let ?m2 = "[(''format'', ''pbf''), (''minzoom'', ''low'')]"
  let ?l2 = "archiveLayer\<lparr>mSourceMinZoom := 4, mSourceMaxZoom := 12\<rparr>"
  let ?ext = "\<lparr>xMinimum = - 180, yMinimum = - 85, xMaximum = 180, yMaximum = 85\<rparr>"
  have t: "\<And>meta l. mDataSource l = mDataSource archiveLayer \<Longrightarrow>
      param (archiveCollaborators meta)
        (setEncodedUri (archiveCollaborators meta) (mDataSource l)) ''type'' = ''mbtiles''"
    by (simp add: archiveLayer_def archiveCollaborators_def reference_defs)
  have r: "\<And>meta l. mDataSource l = mDataSource archiveLayer \<Longrightarrow>
      mbTilesOpen (archiveCollaborators meta)
        (param (archiveCollaborators meta)
           (setEncodedUri (archiveCollaborators meta) (mDataSource l)) ''url'')
        = Some \<lparr>metadataValue = kvParam meta, mbExtent = ?ext\<rparr>"
    by (simp add: archiveLayer_def archiveCollaborators_def reference_defs)
  have f1: "metadataValue \<lparr>metadataValue = kvParam ?m1, mbExtent = ?ext\<rparr> ''format'' = ''pbf''"
    by (simp add: kvParam_def)
  have f2: "metadataValue \<lparr>metadataValue = kvParam ?m2, mbExtent = ?ext\<rparr> ''format'' = ''pbf''"
    by (simp add: kvParam_def)
  have d: "mDataSource ?l2 = mDataSource archiveLayer" by simp
  show ?thesis
    using mbtiles_zoom_from_metadata [OF t [OF refl] r [OF refl] f1]
      mbtiles_zoom_from_metadata [OF t [OF d] r [OF d] f2]
    by (simp add: archiveCollaborators_def referenceCollaborators_def kvParam_def
          decimalToInt_def digitValue_def)
qed

subsection \<open>C10: the renderer after construction\<close>

text \<open>
  C10: after construction from any connection string, whether resolution succeeds or
  not, the layer has a renderer: the basic renderer with the default styles that the
  constructor installs after attempting the resolution.
\<close>

theorem constructor_installs_renderer:
  "renderer (QgsVectorTileLayer env styles l0 uri) = Some (BasicRenderer styles) \<and>
   renderer (QgsVectorTileLayer env styles l0 uri) \<noteq> None"
  by (simp add: QgsVectorTileLayer_def renderer_def setRenderer_def Let_def split: prod.splits)

end
